theory Spec2Isabelle
  imports Main "HOL-Library.Char_ord" "HOL-Library.List_Lexorder"
begin

section \<open>The version gate of \<open>compare_versions.py\<close>\<close>

text \<open>
  The script compares a release tag with the version of the Cargo manifest and reports
  through two files whose paths come from the environment. Python strings are modelled as
  \<^typ>\<open>string\<close>; the comparison operators of \<open>str\<close> are the lexicographic order on
  character lists over the order of the character codes, in which a proper prefix is the
  smaller string.
\<close>

subsection \<open>The world the process runs in\<close>

text \<open>
  The files are a function from paths to contents and standard output is a string.
  Opening a path for appending creates a missing file, so a file that does not exist yet
  has the empty content; every path is taken to be writable.
\<close>

record world =
  files :: "string \<Rightarrow> string"
  stdout :: string

text \<open>The file system in which no file has any content yet.\<close>

definition empty_files :: "string \<Rightarrow> string" where
  "empty_files path = []"

text \<open>
  The process ends by falling off the end of the script, by \<open>SystemExit\<close> (raised by
  \<open>exit\<close> and \<open>sys.exit\<close>) or by an \<open>EnvironmentError\<close> that nothing catches.
\<close>

datatype error = EnvironmentError string | SystemExit int

type_synonym outcome = "error + unit"

text \<open>
  The exit status of the interpreter: 0 after normal completion, the argument of
  \<open>SystemExit\<close>, and 1 after an exception that was not caught.
\<close>

fun exit_status :: "outcome \<Rightarrow> int" where
  "exit_status (Inr _) = 0"
| "exit_status (Inl (SystemExit n)) = n"
| "exit_status (Inl (EnvironmentError _)) = 1"

subsection \<open>Library functions\<close>

text \<open>\<open>os.getenv(name)\<close>: the value of the variable, or \<open>None\<close>.\<close>

definition getenv :: "(string \<rightharpoonup> string) \<Rightarrow> string \<Rightarrow> string option" where
  "getenv env name = env name"

text \<open>\<open>s.lstrip(chars)\<close>: \<open>s\<close> without its leading characters that occur in \<open>chars\<close>.\<close>

definition lstrip :: "string \<Rightarrow> string \<Rightarrow> string" where
  "lstrip chars s = dropWhile (\<lambda>c. c \<in> set chars) s"

text \<open>\<open>with open(path, "a") as f: f.write(text)\<close>\<close>

definition append_file :: "string \<Rightarrow> string \<Rightarrow> (string \<Rightarrow> string) \<Rightarrow> (string \<Rightarrow> string)" where
  "append_file path text fs = fs(path := fs path @ text)"

text \<open>\<open>print(text)\<close>\<close>

definition print :: "string \<Rightarrow> world \<Rightarrow> world" where
  "print text w = w\<lparr>stdout := stdout w @ text @ ''\<newline>''\<rparr>"

subsection \<open>The script\<close>

text \<open>
  The two module-level variables \<open>gh_output\<close> and \<open>gh_step_summary\<close> are passed to the
  functions that read them.
\<close>

definition write_gh_output :: "string \<Rightarrow> string \<Rightarrow> string \<Rightarrow> world \<Rightarrow> world" where
  "write_gh_output gh_output name val w =
     w\<lparr>files := append_file gh_output (name @ ''='' @ val @ ''\<newline>'') (files w)\<rparr>"

definition write_gh_step_summary :: "string \<Rightarrow> string \<Rightarrow> world \<Rightarrow> world" where
  "write_gh_step_summary gh_step_summary content w =
     w\<lparr>files := append_file gh_step_summary (content @ ''\<newline>'') (files w)\<rparr>"

definition main :: "string \<Rightarrow> string \<Rightarrow> string \<Rightarrow> string \<Rightarrow> world \<Rightarrow> outcome \<times> world" where
  "main gh_output gh_step_summary tag_arg cargo_version w0 =
     (let tag = lstrip ''v'' tag_arg;
          w1 = write_gh_step_summary gh_step_summary (''## Tag: '' @ tag) w0;
          w2 = write_gh_step_summary gh_step_summary (''## Cargo Version: '' @ cargo_version) w1
      in if tag > cargo_version then
           (Inl (SystemExit 1),
            write_gh_step_summary gh_step_summary
              (''Tag is ahead of Cargo version. Please update Cargo.toml.''
                 @ '' And recreate the tag.'') w2)
         else
           let w3 = (if tag = cargo_version then
                       write_gh_output gh_output ''release_needed'' ''false''
                         (write_gh_step_summary gh_step_summary ''No release needed.'' w2)
                     else
                       write_gh_output gh_output ''release_needed'' ''true''
                         (write_gh_step_summary gh_step_summary ''Release needed.'' w2));
               w4 = write_gh_output gh_output ''tag'' tag w3;
               w5 = write_gh_output gh_output ''cargo_version'' cargo_version w4
           in (Inr (), w5))"

text \<open>
  The whole run: the two environment checks of the module body, then the block under
  \<open>if __name__ == "__main__"\<close>. \<open>argv\<close> is \<open>sys.argv\<close>, whose first element is the
  name of the script. \<open>not x\<close> holds of \<open>None\<close> and of the empty string.
\<close>

definition script :: "(string \<rightharpoonup> string) \<Rightarrow> string list \<Rightarrow> world \<Rightarrow> outcome \<times> world" where
  "script env argv w =
     (case getenv env ''GITHUB_OUTPUT'' of
        None \<Rightarrow> (Inl (EnvironmentError ''GITHUB_OUTPUT environment variable is not set''), w)
      | Some gh_output \<Rightarrow>
          if gh_output = [] then
            (Inl (EnvironmentError ''GITHUB_OUTPUT environment variable is not set''), w)
          else
            (case getenv env ''GITHUB_STEP_SUMMARY'' of
               None \<Rightarrow>
                 (Inl (EnvironmentError ''GITHUB_STEP_SUMMARY environment variable is not set''), w)
             | Some gh_step_summary \<Rightarrow>
                 if gh_step_summary = [] then
                   (Inl (EnvironmentError
                           ''GITHUB_STEP_SUMMARY environment variable is not set''), w)
                 else if length argv \<noteq> 3 then
                   (Inl (SystemExit 1),
                    print ''Usage: compare_versions.py <tag> <cargo_version>'' w)
                 else
                   main gh_output gh_step_summary (argv ! 1) (argv ! 2) w))"

section \<open>Auxiliary facts\<close>

subsection \<open>Appending to a file\<close>

lemma append_file_twice:
  "append_file p b (append_file p a fs) = append_file p (a @ b) fs"
  by (simp add: append_file_def)

lemma append_file_Nil: "append_file p [] fs = fs"
  by (simp add: append_file_def)

lemma append_file_same: "append_file p t fs p = fs p @ t"
  by (simp add: append_file_def)

lemma append_file_other: "q \<noteq> p \<Longrightarrow> append_file p t fs q = fs q"
  by (simp add: append_file_def)

subsection \<open>Stripping\<close>

lemma lstrip_only_stripped:
  assumes "set s \<subseteq> set chars"
  shows "lstrip chars s = []"
  using assms by (auto simp add: lstrip_def)

subsection \<open>The three branches of \<open>main\<close>\<close>

text \<open>
  All writes to the summary precede all writes to the output file, so the effect of
  \<open>main\<close> is one appended block per file, whether or not the two paths coincide.
\<close>

lemma main_ahead:
  assumes "lstrip ''v'' tag > cv"
  shows "main out summ tag cv w =
    (Inl (SystemExit 1),
     w\<lparr>files := append_file summ
        (''## Tag: '' @ lstrip ''v'' tag @ ''\<newline>''
         @ ''## Cargo Version: '' @ cv @ ''\<newline>''
         @ ''Tag is ahead of Cargo version. Please update Cargo.toml. And recreate the tag.\<newline>'')
        (files w)\<rparr>)"
  using assms
  by (simp add: main_def Let_def write_gh_step_summary_def append_file_twice)

lemma main_equal:
  assumes "lstrip ''v'' tag = cv"
  shows "main out summ tag cv w =
    (Inr (),
     w\<lparr>files := append_file out
        (''release_needed=false\<newline>''
         @ ''tag='' @ cv @ ''\<newline>''
         @ ''cargo_version='' @ cv @ ''\<newline>'')
        (append_file summ
          (''## Tag: '' @ cv @ ''\<newline>''
           @ ''## Cargo Version: '' @ cv @ ''\<newline>''
           @ ''No release needed.\<newline>'')
          (files w))\<rparr>)"
  using assms
  by (simp add: main_def Let_def write_gh_step_summary_def write_gh_output_def append_file_twice)

lemma main_behind:
  assumes "lstrip ''v'' tag < cv"
  shows "main out summ tag cv w =
    (Inr (),
     w\<lparr>files := append_file out
        (''release_needed=true\<newline>''
         @ ''tag='' @ lstrip ''v'' tag @ ''\<newline>''
         @ ''cargo_version='' @ cv @ ''\<newline>'')
        (append_file summ
          (''## Tag: '' @ lstrip ''v'' tag @ ''\<newline>''
           @ ''## Cargo Version: '' @ cv @ ''\<newline>''
           @ ''Release needed.\<newline>'')
          (files w))\<rparr>)"
proof -
  from assms have "\<not> lstrip ''v'' tag > cv" and "lstrip ''v'' tag \<noteq> cv"
    by auto
  then show ?thesis
    by (simp add: main_def Let_def write_gh_step_summary_def write_gh_output_def append_file_twice)
qed

lemma main_not_ahead:
  assumes "\<not> lstrip ''v'' tag > cv"
  shows "main out summ tag cv w =
    (Inr (),
     w\<lparr>files := append_file out
        (''release_needed='' @ (if lstrip ''v'' tag = cv then ''false'' else ''true'')
         @ ''\<newline>''
         @ ''tag='' @ lstrip ''v'' tag @ ''\<newline>''
         @ ''cargo_version='' @ cv @ ''\<newline>'')
        (append_file summ
          (''## Tag: '' @ lstrip ''v'' tag @ ''\<newline>''
           @ ''## Cargo Version: '' @ cv @ ''\<newline>''
           @ (if lstrip ''v'' tag = cv then ''No release needed.'' else ''Release needed.'')
           @ ''\<newline>'')
          (files w))\<rparr>)"
proof (cases "lstrip ''v'' tag = cv")
  case True
  from main_equal [OF True] True show ?thesis by simp
next
  case False
  with assms have "lstrip ''v'' tag < cv" by (simp add: not_less less_le)
  from main_behind [OF this] False show ?thesis by simp
qed

subsection \<open>The checks before \<open>main\<close>\<close>

lemma script_configured:
  assumes "env ''GITHUB_OUTPUT'' = Some out" and "out \<noteq> []"
    and "env ''GITHUB_STEP_SUMMARY'' = Some summ" and "summ \<noteq> []"
  shows "script env [prog, tag, cv] w = main out summ tag cv w"
  using assms by (simp add: script_def getenv_def)

lemma script_unconfigured:
  assumes "env ''GITHUB_OUTPUT'' \<in> {None, Some []} \<or> env ''GITHUB_STEP_SUMMARY'' \<in> {None, Some []}"
  shows "script env argv w =
    (Inl (EnvironmentError
       ((if env ''GITHUB_OUTPUT'' \<in> {None, Some []} then ''GITHUB_OUTPUT''
         else ''GITHUB_STEP_SUMMARY'') @ '' environment variable is not set'')), w)"
  using assms by (auto simp add: script_def getenv_def split: option.splits)

lemma script_usage:
  assumes "env ''GITHUB_OUTPUT'' \<notin> {None, Some []}"
    and "env ''GITHUB_STEP_SUMMARY'' \<notin> {None, Some []}"
    and "length argv \<noteq> 3"
  shows "script env argv w =
    (Inl (SystemExit 1),
     w\<lparr>stdout := stdout w @ ''Usage: compare_versions.py <tag> <cargo_version>\<newline>''\<rparr>)"
  using assms by (auto simp add: script_def getenv_def print_def split: option.splits)

section \<open>Normalising the tag\<close>

text \<open>
  C1 (as amended). Normalising the tag removes all of its leading \<open>v\<close> characters:
  a tag made of \<open>n\<close> characters \<open>v\<close> followed by a rest that does not start with \<open>v\<close>
  is normalised to that rest. With \<open>n = 0\<close> the tag is unchanged, with \<open>n = 1\<close> the one
  \<open>v\<close> is removed, and with \<open>n \<ge> 2\<close> all of them are.
\<close>

theorem lstrip_v_removes_all_leading:
  assumes "take 1 rest \<noteq> ''v''"
  shows "lstrip ''v'' (replicate n (CHR ''v'') @ rest) = rest"
proof -
  have "dropWhile (\<lambda>c. c \<in> set ''v'') rest = rest"
    using assms by (cases rest) auto
  then show ?thesis
    by (simp add: lstrip_def dropWhile_append)
qed

text \<open>
  The amended C1 at the tag \<open>vv1.2.3\<close>.
\<close>

theorem lstrip_v_removes_all_leading_witness:
  "take 1 ''1.2.3'' \<noteq> ''v'' \<and> lstrip ''v'' (replicate 2 (CHR ''v'') @ ''1.2.3'') = ''1.2.3''"
proof -
  have h: "take 1 ''1.2.3'' \<noteq> ''v''" by simp
  from lstrip_v_removes_all_leading [OF h, of 2] h show ?thesis by simp
qed

text \<open>
  C1 as it is written fails: of the two leading \<open>v\<close> characters of \<open>vv1.2.3\<close> both are
  removed, so the normalised tag is \<open>1.2.3\<close> and not \<open>v1.2.3\<close>.
\<close>

theorem lstrip_vv_counterexample:
  "lstrip ''v'' ''vv1.2.3'' = ''1.2.3'' \<and> lstrip ''v'' ''vv1.2.3'' \<noteq> ''v1.2.3''"
  by (simp add: lstrip_def)

text \<open>
  C9. Normalising the tag is idempotent: stripping the leading \<open>v\<close> characters of an
  already stripped tag changes nothing.
\<close>

theorem lstrip_v_idempotent: "lstrip ''v'' (lstrip ''v'' t) = lstrip ''v'' t"
  by (simp add: lstrip_def)

section \<open>The decision\<close>

text \<open>
  In the theorems of this section the environment gives both paths, \<open>out\<close> for
  \<open>GITHUB_OUTPUT\<close> and \<open>summ\<close> for \<open>GITHUB_STEP_SUMMARY\<close>, and \<open>sys.argv\<close> has the
  script name and the two arguments. The resulting files are stated for any two paths,
  and once more per file for two different paths.
\<close>

text \<open>
  C2. When the normalised tag is greater than the Cargo version, the run appends the two
  headings and the line saying that the tag is ahead to the summary, and ends with
  \<open>SystemExit(1)\<close>, exit status 1. No other file changes and nothing is printed: the
  output file receives no record.
\<close>

theorem tag_ahead_hard_stop:
  assumes "env ''GITHUB_OUTPUT'' = Some out" and "out \<noteq> []"
    and "env ''GITHUB_STEP_SUMMARY'' = Some summ" and "summ \<noteq> []"
    and "lstrip ''v'' tag > cargo_version"
  shows "let r = script env [prog, tag, cargo_version] w;
             lines = ''## Tag: '' @ lstrip ''v'' tag @ ''\<newline>''
               @ ''## Cargo Version: '' @ cargo_version @ ''\<newline>''
               @ ''Tag is ahead of Cargo version. Please update Cargo.toml. And recreate the tag.\<newline>''
         in r = (Inl (SystemExit 1), w\<lparr>files := (files w)(summ := files w summ @ lines)\<rparr>)
            \<and> exit_status (fst r) = 1
            \<and> (out \<noteq> summ \<longrightarrow> files (snd r) out = files w out)"
  unfolding Let_def script_configured [OF assms(1-4)] main_ahead [OF assms(5)]
  by (simp add: append_file_def)

text \<open>
  C2 at tag \<open>v1.2.4\<close> and Cargo version \<open>1.2.3\<close>.
\<close>

theorem tag_ahead_hard_stop_witness:
  "map_of [(''GITHUB_OUTPUT'', ''output.txt''), (''GITHUB_STEP_SUMMARY'', ''summary.md'')]
     ''GITHUB_OUTPUT'' = Some ''output.txt''
   \<and> ''output.txt'' \<noteq> []
   \<and> map_of [(''GITHUB_OUTPUT'', ''output.txt''), (''GITHUB_STEP_SUMMARY'', ''summary.md'')]
     ''GITHUB_STEP_SUMMARY'' = Some ''summary.md''
   \<and> ''summary.md'' \<noteq> []
   \<and> ''output.txt'' \<noteq> ''summary.md''
   \<and> lstrip ''v'' ''v1.2.4'' > ''1.2.3''
   \<and> script (map_of [(''GITHUB_OUTPUT'', ''output.txt''), (''GITHUB_STEP_SUMMARY'', ''summary.md'')])
        [''compare_versions.py'', ''v1.2.4'', ''1.2.3'']
        \<lparr>files = empty_files, stdout = []\<rparr>
      = (Inl (SystemExit 1),
         \<lparr>files = empty_files(''summary.md'' :=
            ''## Tag: 1.2.4\<newline>## Cargo Version: 1.2.3\<newline>Tag is ahead of Cargo version. Please update Cargo.toml. And recreate the tag.\<newline>''),
          stdout = []\<rparr>)"
proof -
  have h1: "map_of [(''GITHUB_OUTPUT'', ''output.txt''), (''GITHUB_STEP_SUMMARY'', ''summary.md'')]
     ''GITHUB_OUTPUT'' = Some ''output.txt''" by simp
  have h2: "''output.txt'' \<noteq> []" by simp
  have h3: "map_of [(''GITHUB_OUTPUT'', ''output.txt''), (''GITHUB_STEP_SUMMARY'', ''summary.md'')]
     ''GITHUB_STEP_SUMMARY'' = Some ''summary.md''" by simp
  have h4: "''summary.md'' \<noteq> []" by simp
  have d: "''output.txt'' \<noteq> ''summary.md''" by simp
  have h5: "lstrip ''v'' ''v1.2.4'' > ''1.2.3''" by (simp add: lstrip_def)
  have v: "lstrip ''v'' ''v1.2.4'' = ''1.2.4''" by (simp add: lstrip_def)
  from tag_ahead_hard_stop [OF h1 h2 h3 h4 h5, of "''compare_versions.py''"
      "\<lparr>files = empty_files, stdout = []\<rparr>"]
  have "script (map_of [(''GITHUB_OUTPUT'', ''output.txt''), (''GITHUB_STEP_SUMMARY'', ''summary.md'')])
        [''compare_versions.py'', ''v1.2.4'', ''1.2.3'']
        \<lparr>files = empty_files, stdout = []\<rparr>
      = (Inl (SystemExit 1),
         \<lparr>files = empty_files(''summary.md'' :=
            ''## Tag: 1.2.4\<newline>## Cargo Version: 1.2.3\<newline>Tag is ahead of Cargo version. Please update Cargo.toml. And recreate the tag.\<newline>''),
          stdout = []\<rparr>)"
    by (simp add: Let_def v empty_files_def del: map_of.simps)
  with h1 h2 h3 h4 h5 d show ?thesis by blast
qed

text \<open>
  C3. When the normalised tag equals the Cargo version, the output file receives the
  record \<open>release_needed=false\<close> (followed by the tag and Cargo version records), the
  summary receives the line \<open>No release needed.\<close> after the headings, and the run
  completes with exit status 0.
\<close>

theorem equal_tag_no_release:
  assumes "env ''GITHUB_OUTPUT'' = Some out" and "out \<noteq> []"
    and "env ''GITHUB_STEP_SUMMARY'' = Some summ" and "summ \<noteq> []"
    and "lstrip ''v'' tag = cargo_version"
  shows "let r = script env [prog, tag, cargo_version] w;
             records = ''release_needed=false\<newline>''
               @ ''tag='' @ lstrip ''v'' tag @ ''\<newline>''
               @ ''cargo_version='' @ cargo_version @ ''\<newline>'';
             lines = ''## Tag: '' @ lstrip ''v'' tag @ ''\<newline>''
               @ ''## Cargo Version: '' @ cargo_version @ ''\<newline>''
               @ ''No release needed.\<newline>''
         in r = (Inr (), w\<lparr>files := append_file out records (append_file summ lines (files w))\<rparr>)
            \<and> exit_status (fst r) = 0
            \<and> (out \<noteq> summ \<longrightarrow>
                 files (snd r) out = files w out @ records
                 \<and> files (snd r) summ = files w summ @ lines)"
  unfolding Let_def script_configured [OF assms(1-4)] main_equal [OF assms(5)]
  using assms(5) by (simp add: append_file_def)

text \<open>
  C3 at tag \<open>v1.2.3\<close> and Cargo version \<open>1.2.3\<close>.
\<close>

theorem equal_tag_no_release_witness:
  "map_of [(''GITHUB_OUTPUT'', ''output.txt''), (''GITHUB_STEP_SUMMARY'', ''summary.md'')]
     ''GITHUB_OUTPUT'' = Some ''output.txt''
   \<and> ''output.txt'' \<noteq> []
   \<and> map_of [(''GITHUB_OUTPUT'', ''output.txt''), (''GITHUB_STEP_SUMMARY'', ''summary.md'')]
     ''GITHUB_STEP_SUMMARY'' = Some ''summary.md''
   \<and> ''summary.md'' \<noteq> []
   \<and> ''output.txt'' \<noteq> ''summary.md''
   \<and> lstrip ''v'' ''v1.2.3'' = ''1.2.3''
   \<and> script (map_of [(''GITHUB_OUTPUT'', ''output.txt''), (''GITHUB_STEP_SUMMARY'', ''summary.md'')])
        [''compare_versions.py'', ''v1.2.3'', ''1.2.3''] \<lparr>files = empty_files, stdout = []\<rparr>
      = (Inr (), \<lparr>files = empty_files
           (''summary.md'' :=
              ''## Tag: 1.2.3\<newline>## Cargo Version: 1.2.3\<newline>No release needed.\<newline>'',
            ''output.txt'' :=
              ''release_needed=false\<newline>tag=1.2.3\<newline>cargo_version=1.2.3\<newline>''),
           stdout = []\<rparr>)"
proof -
  have h1: "map_of [(''GITHUB_OUTPUT'', ''output.txt''), (''GITHUB_STEP_SUMMARY'', ''summary.md'')]
      ''GITHUB_OUTPUT'' = Some ''output.txt''" by simp
  have h2: "''output.txt'' \<noteq> []" by simp
  have h3: "map_of [(''GITHUB_OUTPUT'', ''output.txt''), (''GITHUB_STEP_SUMMARY'', ''summary.md'')]
      ''GITHUB_STEP_SUMMARY'' = Some ''summary.md''" by simp
  have h4: "''summary.md'' \<noteq> []" by simp
  have d: "''output.txt'' \<noteq> ''summary.md''" by simp
  have h5: "lstrip ''v'' ''v1.2.3'' = ''1.2.3''" by (simp add: lstrip_def)
  from equal_tag_no_release [OF h1 h2 h3 h4 h5, of "''compare_versions.py''" "\<lparr>files = empty_files, stdout = []\<rparr>"]
  have "script (map_of [(''GITHUB_OUTPUT'', ''output.txt''), (''GITHUB_STEP_SUMMARY'', ''summary.md'')])
        [''compare_versions.py'', ''v1.2.3'', ''1.2.3''] \<lparr>files = empty_files, stdout = []\<rparr>
      = (Inr (), \<lparr>files = empty_files
           (''summary.md'' :=
              ''## Tag: 1.2.3\<newline>## Cargo Version: 1.2.3\<newline>No release needed.\<newline>'',
            ''output.txt'' :=
              ''release_needed=false\<newline>tag=1.2.3\<newline>cargo_version=1.2.3\<newline>''),
           stdout = []\<rparr>)"
    by (simp add: Let_def h5 empty_files_def append_file_def del: map_of.simps)
  with h1 h2 h3 h4 h5 d show ?thesis by blast
qed

text \<open>
  C4. When the normalised tag is less than the Cargo version, the output file receives
  the record \<open>release_needed=true\<close> (followed by the tag and Cargo version records), the
  summary receives the line \<open>Release needed.\<close> after the headings, and the run completes
  with exit status 0.
\<close>

theorem behind_tag_release_needed:
  assumes "env ''GITHUB_OUTPUT'' = Some out" and "out \<noteq> []"
    and "env ''GITHUB_STEP_SUMMARY'' = Some summ" and "summ \<noteq> []"
    and "lstrip ''v'' tag < cargo_version"
  shows "let r = script env [prog, tag, cargo_version] w;
             records = ''release_needed=true\<newline>''
               @ ''tag='' @ lstrip ''v'' tag @ ''\<newline>''
               @ ''cargo_version='' @ cargo_version @ ''\<newline>'';
             lines = ''## Tag: '' @ lstrip ''v'' tag @ ''\<newline>''
               @ ''## Cargo Version: '' @ cargo_version @ ''\<newline>''
               @ ''Release needed.\<newline>''
         in r = (Inr (), w\<lparr>files := append_file out records (append_file summ lines (files w))\<rparr>)
            \<and> exit_status (fst r) = 0
            \<and> (out \<noteq> summ \<longrightarrow>
                 files (snd r) out = files w out @ records
                 \<and> files (snd r) summ = files w summ @ lines)"
  unfolding Let_def script_configured [OF assms(1-4)] main_behind [OF assms(5)]
  by (simp add: append_file_def)

text \<open>
  C4 at tag \<open>v1.2.2\<close> and Cargo version \<open>1.2.3\<close>.
\<close>

theorem behind_tag_release_needed_witness:
  "map_of [(''GITHUB_OUTPUT'', ''output.txt''), (''GITHUB_STEP_SUMMARY'', ''summary.md'')]
     ''GITHUB_OUTPUT'' = Some ''output.txt''
   \<and> ''output.txt'' \<noteq> []
   \<and> map_of [(''GITHUB_OUTPUT'', ''output.txt''), (''GITHUB_STEP_SUMMARY'', ''summary.md'')]
     ''GITHUB_STEP_SUMMARY'' = Some ''summary.md''
   \<and> ''summary.md'' \<noteq> []
   \<and> ''output.txt'' \<noteq> ''summary.md''
   \<and> lstrip ''v'' ''v1.2.2'' < ''1.2.3''
   \<and> script (map_of [(''GITHUB_OUTPUT'', ''output.txt''), (''GITHUB_STEP_SUMMARY'', ''summary.md'')])
        [''compare_versions.py'', ''v1.2.2'', ''1.2.3''] \<lparr>files = empty_files, stdout = []\<rparr>
      = (Inr (), \<lparr>files = empty_files
           (''summary.md'' :=
              ''## Tag: 1.2.2\<newline>## Cargo Version: 1.2.3\<newline>Release needed.\<newline>'',
            ''output.txt'' :=
              ''release_needed=true\<newline>tag=1.2.2\<newline>cargo_version=1.2.3\<newline>''),
           stdout = []\<rparr>)"
proof -
  have h1: "map_of [(''GITHUB_OUTPUT'', ''output.txt''), (''GITHUB_STEP_SUMMARY'', ''summary.md'')]
      ''GITHUB_OUTPUT'' = Some ''output.txt''" by simp
  have h2: "''output.txt'' \<noteq> []" by simp
  have h3: "map_of [(''GITHUB_OUTPUT'', ''output.txt''), (''GITHUB_STEP_SUMMARY'', ''summary.md'')]
      ''GITHUB_STEP_SUMMARY'' = Some ''summary.md''" by simp
  have h4: "''summary.md'' \<noteq> []" by simp
  have d: "''output.txt'' \<noteq> ''summary.md''" by simp
  have v: "lstrip ''v'' ''v1.2.2'' = ''1.2.2''" by (simp add: lstrip_def)
  have h5: "lstrip ''v'' ''v1.2.2'' < ''1.2.3''" by (simp add: v)
  from behind_tag_release_needed [OF h1 h2 h3 h4 h5, of "''compare_versions.py''" "\<lparr>files = empty_files, stdout = []\<rparr>"]
  have "script (map_of [(''GITHUB_OUTPUT'', ''output.txt''), (''GITHUB_STEP_SUMMARY'', ''summary.md'')])
        [''compare_versions.py'', ''v1.2.2'', ''1.2.3''] \<lparr>files = empty_files, stdout = []\<rparr>
      = (Inr (), \<lparr>files = empty_files
           (''summary.md'' :=
              ''## Tag: 1.2.2\<newline>## Cargo Version: 1.2.3\<newline>Release needed.\<newline>'',
            ''output.txt'' :=
              ''release_needed=true\<newline>tag=1.2.2\<newline>cargo_version=1.2.3\<newline>''),
           stdout = []\<rparr>)"
    by (simp add: Let_def v empty_files_def append_file_def del: map_of.simps)
  with h1 h2 h3 h4 h5 d show ?thesis by blast
qed

text \<open>
  C7. When the normalised tag is not greater than the Cargo version, the output file
  receives, after the \<open>release_needed\<close> record, the two records \<open>tag=\<close> with the
  normalised tag and \<open>cargo_version=\<close> with the Cargo version, each written as
  \<open>name=value\<close> and ended by a newline.
\<close>

theorem tag_and_cargo_version_records:
  assumes "env ''GITHUB_OUTPUT'' = Some out" and "out \<noteq> []"
    and "env ''GITHUB_STEP_SUMMARY'' = Some summ" and "summ \<noteq> []"
    and "\<not> lstrip ''v'' tag > cargo_version"
  shows "let r = script env [prog, tag, cargo_version] w;
             release_needed = ''release_needed=''
               @ (if lstrip ''v'' tag = cargo_version then ''false'' else ''true'')
               @ ''\<newline>'';
             further = ''tag='' @ lstrip ''v'' tag @ ''\<newline>''
               @ ''cargo_version='' @ cargo_version @ ''\<newline>'';
             lines = ''## Tag: '' @ lstrip ''v'' tag @ ''\<newline>''
               @ ''## Cargo Version: '' @ cargo_version @ ''\<newline>''
               @ (if lstrip ''v'' tag = cargo_version then ''No release needed.''
                  else ''Release needed.'')
               @ ''\<newline>''
         in files (snd r)
              = append_file out (release_needed @ further) (append_file summ lines (files w))
            \<and> (out \<noteq> summ \<longrightarrow> files (snd r) out = files w out @ release_needed @ further)"
  unfolding Let_def script_configured [OF assms(1-4)] main_not_ahead [OF assms(5)]
  by (simp add: append_file_def)

text \<open>
  C7 at tag \<open>v0.1.9\<close> and Cargo version \<open>0.2.0\<close>.
\<close>

theorem tag_and_cargo_version_records_witness:
  "map_of [(''GITHUB_OUTPUT'', ''output.txt''), (''GITHUB_STEP_SUMMARY'', ''summary.md'')]
     ''GITHUB_OUTPUT'' = Some ''output.txt''
   \<and> ''output.txt'' \<noteq> []
   \<and> map_of [(''GITHUB_OUTPUT'', ''output.txt''), (''GITHUB_STEP_SUMMARY'', ''summary.md'')]
     ''GITHUB_STEP_SUMMARY'' = Some ''summary.md''
   \<and> ''summary.md'' \<noteq> []
   \<and> \<not> lstrip ''v'' ''v0.1.9'' > ''0.2.0''
   \<and> ''output.txt'' \<noteq> ''summary.md''
   \<and> files (snd (script (map_of [(''GITHUB_OUTPUT'', ''output.txt''), (''GITHUB_STEP_SUMMARY'', ''summary.md'')])
        [''compare_versions.py'', ''v0.1.9'', ''0.2.0''] \<lparr>files = empty_files, stdout = []\<rparr>)) ''output.txt''
      = ''release_needed=true\<newline>tag=0.1.9\<newline>cargo_version=0.2.0\<newline>''"
proof -
  have h1: "map_of [(''GITHUB_OUTPUT'', ''output.txt''), (''GITHUB_STEP_SUMMARY'', ''summary.md'')]
      ''GITHUB_OUTPUT'' = Some ''output.txt''" by simp
  have h2: "''output.txt'' \<noteq> []" by simp
  have h3: "map_of [(''GITHUB_OUTPUT'', ''output.txt''), (''GITHUB_STEP_SUMMARY'', ''summary.md'')]
      ''GITHUB_STEP_SUMMARY'' = Some ''summary.md''" by simp
  have h4: "''summary.md'' \<noteq> []" by simp
  have v: "lstrip ''v'' ''v0.1.9'' = ''0.1.9''" by (simp add: lstrip_def)
  have h5: "\<not> lstrip ''v'' ''v0.1.9'' > ''0.2.0''" by (simp add: v)
  have d: "''output.txt'' \<noteq> ''summary.md''" by simp
  from tag_and_cargo_version_records [OF h1 h2 h3 h4 h5, of "''compare_versions.py''" "\<lparr>files = empty_files, stdout = []\<rparr>"]
  have "files (snd (script (map_of [(''GITHUB_OUTPUT'', ''output.txt''), (''GITHUB_STEP_SUMMARY'', ''summary.md'')])
        [''compare_versions.py'', ''v0.1.9'', ''0.2.0''] \<lparr>files = empty_files, stdout = []\<rparr>)) ''output.txt''
      = ''release_needed=true\<newline>tag=0.1.9\<newline>cargo_version=0.2.0\<newline>''"
    by (simp add: Let_def v empty_files_def append_file_def del: map_of.simps)
  with h1 h2 h3 h4 h5 d show ?thesis by blast
qed

text \<open>
  C8. In each of the three branches the summary receives first the two headings
  \<open>## Tag: \<close> with the normalised tag and \<open>## Cargo Version: \<close> with the Cargo version,
  and after them the one line of the branch, which does not start with \<open>## \<close>.
\<close>

theorem summary_headings_in_every_branch:
  assumes "env ''GITHUB_OUTPUT'' = Some out" and "out \<noteq> []"
    and "env ''GITHUB_STEP_SUMMARY'' = Some summ" and "summ \<noteq> []"
  shows "let tag' = lstrip ''v'' tag;
             r = script env [prog, tag, cargo_version] w;
             headings = ''## Tag: '' @ tag' @ ''\<newline>''
               @ ''## Cargo Version: '' @ cargo_version @ ''\<newline>'';
             branch_line =
               (if tag' > cargo_version then
                  ''Tag is ahead of Cargo version. Please update Cargo.toml. And recreate the tag.''
                else if tag' = cargo_version then ''No release needed.''
                else ''Release needed.'') @ ''\<newline>'';
             records =
               (if tag' > cargo_version then []
                else ''release_needed='' @ (if tag' = cargo_version then ''false'' else ''true'')
                  @ ''\<newline>''
                  @ ''tag='' @ tag' @ ''\<newline>''
                  @ ''cargo_version='' @ cargo_version @ ''\<newline>'')
         in files (snd r)
              = append_file out records (append_file summ (headings @ branch_line) (files w))
            \<and> (out \<noteq> summ \<longrightarrow> files (snd r) summ = files w summ @ headings @ branch_line)"
proof (cases "lstrip ''v'' tag > cargo_version")
  case True
  from main_ahead [OF True] True show ?thesis
    unfolding Let_def script_configured [OF assms]
    by (simp add: append_file_Nil append_file_same)
next
  case False
  from main_not_ahead [OF False] False show ?thesis
    unfolding Let_def script_configured [OF assms]
    by (simp add: append_file_same append_file_other)
qed

text \<open>
  C8 at tag \<open>v9.0.0\<close> and Cargo version \<open>10.0.0\<close>, where the tag is ahead in the
  lexicographic order.
\<close>

theorem summary_headings_in_every_branch_witness:
  "map_of [(''GITHUB_OUTPUT'', ''output.txt''), (''GITHUB_STEP_SUMMARY'', ''summary.md'')]
     ''GITHUB_OUTPUT'' = Some ''output.txt''
   \<and> ''output.txt'' \<noteq> []
   \<and> map_of [(''GITHUB_OUTPUT'', ''output.txt''), (''GITHUB_STEP_SUMMARY'', ''summary.md'')]
     ''GITHUB_STEP_SUMMARY'' = Some ''summary.md''
   \<and> ''summary.md'' \<noteq> []
   \<and> ''output.txt'' \<noteq> ''summary.md''
   \<and> files (snd (script (map_of [(''GITHUB_OUTPUT'', ''output.txt''), (''GITHUB_STEP_SUMMARY'', ''summary.md'')])
        [''compare_versions.py'', ''v9.0.0'', ''10.0.0''] \<lparr>files = empty_files, stdout = []\<rparr>)) ''summary.md''
      = ''## Tag: 9.0.0\<newline>## Cargo Version: 10.0.0\<newline>Tag is ahead of Cargo version. Please update Cargo.toml. And recreate the tag.\<newline>''"
proof -
  have h1: "map_of [(''GITHUB_OUTPUT'', ''output.txt''), (''GITHUB_STEP_SUMMARY'', ''summary.md'')]
      ''GITHUB_OUTPUT'' = Some ''output.txt''" by simp
  have h2: "''output.txt'' \<noteq> []" by simp
  have h3: "map_of [(''GITHUB_OUTPUT'', ''output.txt''), (''GITHUB_STEP_SUMMARY'', ''summary.md'')]
      ''GITHUB_STEP_SUMMARY'' = Some ''summary.md''" by simp
  have h4: "''summary.md'' \<noteq> []" by simp
  have v: "lstrip ''v'' ''v9.0.0'' = ''9.0.0''" by (simp add: lstrip_def)
  have d: "''output.txt'' \<noteq> ''summary.md''" by simp
  from summary_headings_in_every_branch [OF h1 h2 h3 h4, of "''v9.0.0''"
      "''compare_versions.py''" "''10.0.0''" "\<lparr>files = empty_files, stdout = []\<rparr>"]
  have "files (snd (script (map_of [(''GITHUB_OUTPUT'', ''output.txt''), (''GITHUB_STEP_SUMMARY'', ''summary.md'')])
        [''compare_versions.py'', ''v9.0.0'', ''10.0.0''] \<lparr>files = empty_files, stdout = []\<rparr>)) ''summary.md''
      = ''## Tag: 9.0.0\<newline>## Cargo Version: 10.0.0\<newline>Tag is ahead of Cargo version. Please update Cargo.toml. And recreate the tag.\<newline>''"
    by (simp add: Let_def v empty_files_def append_file_def del: map_of.simps)
  with h1 h2 h3 h4 d show ?thesis by blast
qed

text \<open>
  C10. A tag that consists of \<open>v\<close> characters only is normalised to the empty string.
  With a non-empty Cargo version the run therefore does not stop on a tag that is ahead:
  it writes \<open>release_needed=true\<close> and completes with exit status 0.
\<close>

theorem tag_of_only_v_release_needed:
  assumes "set tag \<subseteq> {CHR ''v''}"
  shows "lstrip ''v'' tag = []
    \<and> (env ''GITHUB_OUTPUT'' = Some out \<and> out \<noteq> []
         \<and> env ''GITHUB_STEP_SUMMARY'' = Some summ \<and> summ \<noteq> []
         \<and> cargo_version \<noteq> []
       \<longrightarrow> script env [prog, tag, cargo_version] w
           = (Inr (),
              w\<lparr>files := append_file out
                   (''release_needed=true\<newline>'' @ ''tag=\<newline>''
                    @ ''cargo_version='' @ cargo_version @ ''\<newline>'')
                   (append_file summ
                      (''## Tag: \<newline>''
                       @ ''## Cargo Version: '' @ cargo_version @ ''\<newline>''
                       @ ''Release needed.\<newline>'')
                      (files w))\<rparr>)
         \<and> exit_status (fst (script env [prog, tag, cargo_version] w)) = 0)"
proof -
  from assms have e: "lstrip ''v'' tag = []"
    by (intro lstrip_only_stripped) simp
  show ?thesis
  proof (intro conjI impI)
    show "lstrip ''v'' tag = []" by (fact e)
  next
    assume c: "env ''GITHUB_OUTPUT'' = Some out \<and> out \<noteq> []
         \<and> env ''GITHUB_STEP_SUMMARY'' = Some summ \<and> summ \<noteq> []
         \<and> cargo_version \<noteq> []"
    then have "lstrip ''v'' tag < cargo_version"
      by (cases cargo_version) (simp_all add: e)
    from main_behind [OF this, of out summ w] c
    have s: "script env [prog, tag, cargo_version] w
           = (Inr (),
              w\<lparr>files := append_file out
                   (''release_needed=true\<newline>'' @ ''tag=\<newline>''
                    @ ''cargo_version='' @ cargo_version @ ''\<newline>'')
                   (append_file summ
                      (''## Tag: \<newline>''
                       @ ''## Cargo Version: '' @ cargo_version @ ''\<newline>''
                       @ ''Release needed.\<newline>'')
                      (files w))\<rparr>)"
      by (simp add: script_configured e)
    then show "script env [prog, tag, cargo_version] w
           = (Inr (),
              w\<lparr>files := append_file out
                   (''release_needed=true\<newline>'' @ ''tag=\<newline>''
                    @ ''cargo_version='' @ cargo_version @ ''\<newline>'')
                   (append_file summ
                      (''## Tag: \<newline>''
                       @ ''## Cargo Version: '' @ cargo_version @ ''\<newline>''
                       @ ''Release needed.\<newline>'')
                      (files w))\<rparr>)" .
    from s show "exit_status (fst (script env [prog, tag, cargo_version] w)) = 0"
      by simp
  qed
qed

text \<open>
  C10 at tag \<open>vvv\<close> and Cargo version \<open>0.1.0\<close>.
\<close>

theorem tag_of_only_v_release_needed_witness:
  "set ''vvv'' \<subseteq> {CHR ''v''}
   \<and> map_of [(''GITHUB_OUTPUT'', ''output.txt''), (''GITHUB_STEP_SUMMARY'', ''summary.md'')]
     ''GITHUB_OUTPUT'' = Some ''output.txt''
   \<and> ''output.txt'' \<noteq> []
   \<and> map_of [(''GITHUB_OUTPUT'', ''output.txt''), (''GITHUB_STEP_SUMMARY'', ''summary.md'')]
     ''GITHUB_STEP_SUMMARY'' = Some ''summary.md''
   \<and> ''summary.md'' \<noteq> []
   \<and> ''0.1.0'' \<noteq> []
   \<and> lstrip ''v'' ''vvv'' = []
   \<and> script (map_of [(''GITHUB_OUTPUT'', ''output.txt''), (''GITHUB_STEP_SUMMARY'', ''summary.md'')])
        [''compare_versions.py'', ''vvv'', ''0.1.0''] \<lparr>files = empty_files, stdout = []\<rparr>
      = (Inr (), \<lparr>files = empty_files
           (''summary.md'' :=
              ''## Tag: \<newline>## Cargo Version: 0.1.0\<newline>Release needed.\<newline>'',
            ''output.txt'' :=
              ''release_needed=true\<newline>tag=\<newline>cargo_version=0.1.0\<newline>''),
           stdout = []\<rparr>)"
proof -
  have h0: "set ''vvv'' \<subseteq> {CHR ''v''}" by simp
  have h1: "map_of [(''GITHUB_OUTPUT'', ''output.txt''), (''GITHUB_STEP_SUMMARY'', ''summary.md'')]
      ''GITHUB_OUTPUT'' = Some ''output.txt''" by simp
  have h2: "''output.txt'' \<noteq> []" by simp
  have h3: "map_of [(''GITHUB_OUTPUT'', ''output.txt''), (''GITHUB_STEP_SUMMARY'', ''summary.md'')]
      ''GITHUB_STEP_SUMMARY'' = Some ''summary.md''" by simp
  have h4: "''summary.md'' \<noteq> []" by simp
  have h5: "''0.1.0'' \<noteq> []" by simp
  from tag_of_only_v_release_needed [OF h0, of "map_of [(''GITHUB_OUTPUT'', ''output.txt''), (''GITHUB_STEP_SUMMARY'', ''summary.md'')]"
      "''output.txt''" "''summary.md''" "''0.1.0''" "''compare_versions.py''" "\<lparr>files = empty_files, stdout = []\<rparr>"]
    h1 h2 h3 h4 h5
  have "lstrip ''v'' ''vvv'' = []
   \<and> script (map_of [(''GITHUB_OUTPUT'', ''output.txt''), (''GITHUB_STEP_SUMMARY'', ''summary.md'')])
        [''compare_versions.py'', ''vvv'', ''0.1.0''] \<lparr>files = empty_files, stdout = []\<rparr>
      = (Inr (), \<lparr>files = empty_files
           (''summary.md'' :=
              ''## Tag: \<newline>## Cargo Version: 0.1.0\<newline>Release needed.\<newline>'',
            ''output.txt'' :=
              ''release_needed=true\<newline>tag=\<newline>cargo_version=0.1.0\<newline>''),
           stdout = []\<rparr>)"
    by (simp add: empty_files_def append_file_def del: map_of.simps)
  with h0 h1 h2 h3 h4 h5 show ?thesis by blast
qed

section \<open>Failures before the decision\<close>

text \<open>
  C6. When \<open>GITHUB_OUTPUT\<close> or \<open>GITHUB_STEP_SUMMARY\<close> is unset or empty, the run ends
  with an \<open>EnvironmentError\<close> that names the first such variable, exit status 1, whatever
  the arguments are, and the world is unchanged: no file is written and nothing is
  printed.
\<close>

theorem missing_environment_fails_first:
  assumes "env ''GITHUB_OUTPUT'' \<in> {None, Some []} \<or> env ''GITHUB_STEP_SUMMARY'' \<in> {None, Some []}"
  shows "let r = script env argv w
         in r = (Inl (EnvironmentError
                   ((if env ''GITHUB_OUTPUT'' \<in> {None, Some []} then ''GITHUB_OUTPUT''
                     else ''GITHUB_STEP_SUMMARY'') @ '' environment variable is not set'')), w)
            \<and> exit_status (fst r) = 1"
  unfolding Let_def script_unconfigured [OF assms] by simp

text \<open>
  C6 with \<open>GITHUB_STEP_SUMMARY\<close> unset and two well-formed arguments.
\<close>

theorem missing_environment_fails_first_witness:
  "(map_of [(''GITHUB_OUTPUT'', ''output.txt'')] ''GITHUB_OUTPUT'' \<in> {None, Some []}
     \<or> map_of [(''GITHUB_OUTPUT'', ''output.txt'')] ''GITHUB_STEP_SUMMARY'' \<in> {None, Some []})
   \<and> script (map_of [(''GITHUB_OUTPUT'', ''output.txt'')])
        [''compare_versions.py'', ''v1.2.2'', ''1.2.3''] \<lparr>files = empty_files, stdout = []\<rparr>
      = (Inl (EnvironmentError ''GITHUB_STEP_SUMMARY environment variable is not set''), \<lparr>files = empty_files, stdout = []\<rparr>)"
proof -
  have h: "map_of [(''GITHUB_OUTPUT'', ''output.txt'')] ''GITHUB_OUTPUT'' \<in> {None, Some []}
     \<or> map_of [(''GITHUB_OUTPUT'', ''output.txt'')] ''GITHUB_STEP_SUMMARY'' \<in> {None, Some []}"
    by simp
  have g: "map_of [(''GITHUB_OUTPUT'', ''output.txt'')] ''GITHUB_OUTPUT'' \<notin> {None, Some []}"
    by simp
  from missing_environment_fails_first [OF h,
      of "[''compare_versions.py'', ''v1.2.2'', ''1.2.3'']" "\<lparr>files = empty_files, stdout = []\<rparr>"]
  have "script (map_of [(''GITHUB_OUTPUT'', ''output.txt'')])
        [''compare_versions.py'', ''v1.2.2'', ''1.2.3''] \<lparr>files = empty_files, stdout = []\<rparr>
      = (Inl (EnvironmentError ''GITHUB_STEP_SUMMARY environment variable is not set''), \<lparr>files = empty_files, stdout = []\<rparr>)"
    unfolding Let_def if_not_P [OF g] by (simp del: map_of.simps)
  with h show ?thesis by blast
qed

text \<open>
  C5 (as amended). With any number of arguments other than two the run ends with exit
  status 1 and writes no file. When both variables are set and non-empty it prints the
  usage message to standard output and ends with \<open>SystemExit(1)\<close>; otherwise it ends
  with the \<open>EnvironmentError\<close> of the module body and prints nothing.
\<close>

theorem wrong_argument_count_exits_1:
  assumes "length argv \<noteq> 3"
  shows "let r = script env argv w
         in exit_status (fst r) = 1
            \<and> files (snd r) = files w
            \<and> (if env ''GITHUB_OUTPUT'' \<notin> {None, Some []}
                    \<and> env ''GITHUB_STEP_SUMMARY'' \<notin> {None, Some []}
                then fst r = Inl (SystemExit 1)
                     \<and> stdout (snd r)
                         = stdout w @ ''Usage: compare_versions.py <tag> <cargo_version>\<newline>''
                else (\<exists>msg. fst r = Inl (EnvironmentError msg)) \<and> stdout (snd r) = stdout w)"
proof (cases "env ''GITHUB_OUTPUT'' \<notin> {None, Some []}
                    \<and> env ''GITHUB_STEP_SUMMARY'' \<notin> {None, Some []}")
  case True
  then show ?thesis
    unfolding Let_def using script_usage [of env argv w] assms by simp
next
  case False
  then have "env ''GITHUB_OUTPUT'' \<in> {None, Some []} \<or> env ''GITHUB_STEP_SUMMARY'' \<in> {None, Some []}"
    by blast
  from script_unconfigured [OF this, of argv w] False show ?thesis
    unfolding Let_def by simp
qed

text \<open>
  The amended C5 with one argument and both variables set.
\<close>

theorem wrong_argument_count_exits_1_witness:
  "length [''compare_versions.py'', ''v1.2.3''] \<noteq> 3
   \<and> exit_status (fst (script (map_of [(''GITHUB_OUTPUT'', ''output.txt''), (''GITHUB_STEP_SUMMARY'', ''summary.md'')]) [''compare_versions.py'', ''v1.2.3''] \<lparr>files = empty_files, stdout = []\<rparr>)) = 1
   \<and> stdout (snd (script (map_of [(''GITHUB_OUTPUT'', ''output.txt''), (''GITHUB_STEP_SUMMARY'', ''summary.md'')]) [''compare_versions.py'', ''v1.2.3''] \<lparr>files = empty_files, stdout = []\<rparr>))
       = ''Usage: compare_versions.py <tag> <cargo_version>\<newline>''"
proof -
  have h: "length [''compare_versions.py'', ''v1.2.3''] \<noteq> 3" by simp
  have g: "(map_of [(''GITHUB_OUTPUT'', ''output.txt''), (''GITHUB_STEP_SUMMARY'', ''summary.md'')]) ''GITHUB_OUTPUT'' \<notin> {None, Some []}
      \<and> (map_of [(''GITHUB_OUTPUT'', ''output.txt''), (''GITHUB_STEP_SUMMARY'', ''summary.md'')]) ''GITHUB_STEP_SUMMARY'' \<notin> {None, Some []}"
    by simp
  from wrong_argument_count_exits_1 [OF h, of "map_of [(''GITHUB_OUTPUT'', ''output.txt''), (''GITHUB_STEP_SUMMARY'', ''summary.md'')]" "\<lparr>files = empty_files, stdout = []\<rparr>"]
  have "exit_status (fst (script (map_of [(''GITHUB_OUTPUT'', ''output.txt''), (''GITHUB_STEP_SUMMARY'', ''summary.md'')]) [''compare_versions.py'', ''v1.2.3''] \<lparr>files = empty_files, stdout = []\<rparr>)) = 1
   \<and> stdout (snd (script (map_of [(''GITHUB_OUTPUT'', ''output.txt''), (''GITHUB_STEP_SUMMARY'', ''summary.md'')]) [''compare_versions.py'', ''v1.2.3''] \<lparr>files = empty_files, stdout = []\<rparr>))
       = ''Usage: compare_versions.py <tag> <cargo_version>\<newline>''"
    unfolding Let_def if_P [OF g] by simp
  with h show ?thesis by blast
qed

text \<open>
  C5 as it is written fails: with no argument and an empty environment nothing is
  printed to standard output, and the run ends with the \<open>EnvironmentError\<close>.
\<close>

theorem usage_without_environment_counterexample:
  "length [''compare_versions.py''] \<noteq> 3
   \<and> fst (script (map_of []) [''compare_versions.py''] \<lparr>files = empty_files, stdout = []\<rparr>)
       = Inl (EnvironmentError ''GITHUB_OUTPUT environment variable is not set'')
   \<and> stdout (snd (script (map_of []) [''compare_versions.py''] \<lparr>files = empty_files, stdout = []\<rparr>)) = []"
  by (simp add: script_def getenv_def)

end
